theory Spec2Isabelle
  imports Complex_Main "HOL-Library.Sublist"
begin

section \<open>The portfolio ledger and the order execution engine\<close>

text \<open>
  A shallow embedding of \<^verbatim>\<open>portfolio_db.py\<close> and \<^verbatim>\<open>trading_engine.py\<close>.
  The SQLite database is the explicit state \<open>ledger\<close>: the single \<open>Account\<close> row, the
  \<open>Holdings\<close> table keyed by its primary key \<open>symbol\<close>, and the \<open>Transactions\<close>
  table as the list of its rows in insertion order (the order of the autoincremented id).
  Amounts, quantities and prices are exact rationals: the arithmetic of the source is
  followed operation by operation, without the rounding of Python's floats.
\<close>

subsection \<open>Data\<close>

record holding =
  held_quantity :: rat
  average_price :: rat

record transaction =
  txn_symbol :: string
  txn_type :: string
  txn_quantity :: rat
  txn_price :: rat
  txn_timestamp :: string

record ledger =
  cash_balance :: rat
  holdings :: "string \<rightharpoonup> holding"
  transactions :: "transaction list"

text \<open>The dictionary returned by \<^verbatim>\<open>get_live_quote\<close>; the function returns \<^verbatim>\<open>None\<close> when
  no price is available.\<close>

record live_quote =
  quote_symbol :: string
  quote_price :: rat
  quote_change :: rat

text \<open>
  What the two modules read from outside the database: the quote provider
  (\<^verbatim>\<open>market_data.get_live_quote\<close>, a network call), the clock
  (\<^verbatim>\<open>datetime.datetime.now().isoformat()\<close>), and Python's rendering of a number inside an
  f-string, \<open>str_of\<close> for a bare \<^verbatim>\<open>{x}\<close> and \<open>money\<close> for \<^verbatim>\<open>{x:,.2f}\<close>. All four are
  parameters: every theorem below holds whatever they return.
\<close>

record env =
  get_live_quote :: "string \<Rightarrow> live_quote option"
  now :: string
  str_of :: "rat \<Rightarrow> string"
  money :: "rat \<Rightarrow> string"

text \<open>The exceptions \<^verbatim>\<open>update_holding\<close> can raise: the two \<^verbatim>\<open>ValueError\<close>s it raises itself,
  and the division \<^verbatim>\<open>/ new_qty\<close> at zero. \<open>exn_str\<close> is \<^verbatim>\<open>str(e)\<close>, for the division
  CPython's text; no theorem depends on that text.\<close>

datatype exn = ValueError string | ZeroDivisionError

fun exn_str :: "exn \<Rightarrow> string" where
  "exn_str (ValueError m) = m"
| "exn_str ZeroDivisionError = ''float division by zero''"

definition INITIAL_CASH :: rat where
  "INITIAL_CASH = 100000"

text \<open>\<^verbatim>\<open>initialize_database\<close> on a fresh file: one account row, no holdings, no transactions.\<close>

definition initialize_database :: ledger where
  "initialize_database =
     \<lparr>cash_balance = INITIAL_CASH, holdings = Map.empty, transactions = []\<rparr>"

subsection \<open>\<^verbatim>\<open>portfolio_db.py\<close>\<close>

definition get_cash_balance :: "ledger \<Rightarrow> rat" where
  "get_cash_balance s = cash_balance s"

definition update_cash_balance :: "rat \<Rightarrow> ledger \<Rightarrow> ledger" where
  "update_cash_balance amount s = s\<lparr>cash_balance := cash_balance s + amount\<rparr>"

definition log_transaction :: "env \<Rightarrow> string \<Rightarrow> string \<Rightarrow> rat \<Rightarrow> rat \<Rightarrow> ledger \<Rightarrow> ledger" where
  "log_transaction e symbol type quantity price s =
     (let timestamp = now e
      in s\<lparr>transactions := transactions s @
            [\<lparr>txn_symbol = symbol, txn_type = type, txn_quantity = quantity,
              txn_price = price, txn_timestamp = timestamp\<rparr>]\<rparr>)"

definition add_virtual_cash :: "env \<Rightarrow> rat \<Rightarrow> ledger \<Rightarrow> (bool \<times> string) \<times> ledger" where
  "add_virtual_cash e amount s =
     (if amount \<le> 0 then ((False, ''Amount must be positive.''), s)
      else
        let s1 = update_cash_balance amount s;
            s2 = log_transaction e ''CASH'' ''DEPOSIT'' 1 amount s1
        in ((True, ''Successfully added $'' @ money e amount @ ''.''), s2))"

definition get_transactions :: "ledger \<Rightarrow> transaction list" where
  "get_transactions s = rev (transactions s)"

text \<open>
  \<^verbatim>\<open>update_holding\<close> raises before it writes, so an exception (\<open>Inl\<close>) carries no state.
  The division of the weighted average raises \<^verbatim>\<open>ZeroDivisionError\<close> when \<^verbatim>\<open>new_qty\<close> is
  zero, which the model writes out.
\<close>

definition update_holding :: "env \<Rightarrow> string \<Rightarrow> rat \<Rightarrow> rat \<Rightarrow> ledger \<Rightarrow> exn + ledger" where
  "update_holding e symbol quantity_change price s =
     (case holdings s symbol of
        Some result \<Rightarrow>
          let current_qty = held_quantity result;
              current_avg_price = average_price result;
              new_qty = current_qty + quantity_change
          in
            if new_qty < 0 then
              Inl (ValueError (''Insufficient quantity to sell. You only have ''
                     @ str_of e current_qty @ ''.''))
            else if quantity_change > 0 \<and> new_qty = 0 then Inl ZeroDivisionError
            else
              let new_avg_price =
                    (if quantity_change > 0 then
                       (let total_cost_old = current_qty * current_avg_price;
                            cost_new_shares = quantity_change * price
                        in (total_cost_old + cost_new_shares) / new_qty)
                     else if new_qty = 0 then 0
                     else current_avg_price)
              in
                if new_qty > 0 then
                  Inr (s\<lparr>holdings := (holdings s)(symbol \<mapsto>
                         \<lparr>held_quantity = new_qty, average_price = new_avg_price\<rparr>)\<rparr>)
                else Inr (s\<lparr>holdings := (holdings s)(symbol := None)\<rparr>)
      | None \<Rightarrow>
          if quantity_change > 0 then
            Inr (s\<lparr>holdings := (holdings s)(symbol \<mapsto>
                   \<lparr>held_quantity = quantity_change, average_price = price\<rparr>)\<rparr>)
          else Inl (ValueError (''Cannot sell '' @ symbol @ ''. You do not own this stock.'')))"

subsection \<open>\<^verbatim>\<open>trading_engine.py\<close>\<close>

definition place_order :: "env \<Rightarrow> string \<Rightarrow> rat \<Rightarrow> string \<Rightarrow> ledger \<Rightarrow> (bool \<times> string) \<times> ledger" where
  "place_order e symbol quantity order_type s =
     (if order_type \<notin> set [''BUY'', ''SELL''] then ((False, ''Invalid order type.''), s)
      else if quantity \<le> 0 then ((False, ''Quantity must be positive.''), s)
      else
        case get_live_quote e symbol of
          None \<Rightarrow>
            ((False, ''Could not get live price for '' @ symbol
                     @ ''. Check symbol or API key.''), s)
        | Some q \<Rightarrow>
            let price = quote_price q;
                total_cost = price * quantity;
                current_cash = get_cash_balance s
            in
              if order_type = ''BUY'' then
                if total_cost > current_cash then
                  ((False, ''Insufficient cash. Need $'' @ money e total_cost
                           @ '', have $'' @ money e current_cash @ ''.''), s)
                else
                  (case update_holding e symbol quantity price s of
                     Inr s1 \<Rightarrow>
                       let s2 = update_cash_balance (- total_cost) s1;
                           s3 = log_transaction e symbol ''BUY'' quantity price s2
                       in ((True, ''Successfully BOUGHT '' @ str_of e quantity @ '' of ''
                                  @ symbol @ '' at $'' @ money e price @ ''.''), s3)
                   | Inl ex \<Rightarrow> ((False, ''Error during BUY: '' @ exn_str ex), s))
              else if order_type = ''SELL'' then
                (case update_holding e symbol (- quantity) price s of
                   Inr s1 \<Rightarrow>
                     let s2 = update_cash_balance total_cost s1;
                         s3 = log_transaction e symbol ''SELL'' quantity price s2
                     in ((True, ''Successfully SOLD '' @ str_of e quantity @ '' of ''
                                @ symbol @ '' at $'' @ money e price @ ''.''), s3)
                 | Inl (ValueError m) \<Rightarrow> ((False, m), s)
                 | Inl ex \<Rightarrow> ((False, ''Error during SELL: '' @ exn_str ex), s))
              else ((False, ''Unknown error during trade execution.''), s))"

subsection \<open>Sessions\<close>

text \<open>
  The two entry points the window calls (\<^verbatim>\<open>add_funds_dialog\<close> and \<^verbatim>\<open>execute_trade\<close> in
  \<^verbatim>\<open>main.py\<close>), and a session as the list of the calls made, each with what the outside
  world answered at that moment. A reachable ledger is \<open>run steps initialize_database\<close>.
\<close>

datatype action = Deposit rat | Order string rat string

fun perform :: "env \<Rightarrow> action \<Rightarrow> ledger \<Rightarrow> (bool \<times> string) \<times> ledger" where
  "perform e (Deposit amount) s = add_virtual_cash e amount s"
| "perform e (Order symbol quantity order_type) s = place_order e symbol quantity order_type s"

fun run :: "(env \<times> action) list \<Rightarrow> ledger \<Rightarrow> ledger" where
  "run [] s = s"
| "run ((e, a) # rest) s = run rest (snd (perform e a s))"

text \<open>A sequence of BUY orders on one symbol, every one of them successful; \<open>None\<close> as soon
  as one order is refused.\<close>

fun buys :: "string \<Rightarrow> (env \<times> rat) list \<Rightarrow> ledger \<Rightarrow> ledger option" where
  "buys symbol [] s = Some s"
| "buys symbol ((e, quantity) # rest) s =
     (case place_order e symbol quantity ''BUY'' s of
        ((True, _), s') \<Rightarrow> buys symbol rest s'
      | ((False, _), _) \<Rightarrow> None)"

text \<open>The price an order on \<open>symbol\<close> executes at: the \<^verbatim>\<open>price\<close> entry of the quote (an order
  without a quote does not execute).\<close>

definition exec_price :: "env \<Rightarrow> string \<Rightarrow> rat" where
  "exec_price e symbol = (case get_live_quote e symbol of Some q \<Rightarrow> quote_price q | None \<Rightarrow> 0)"

text \<open>The quantity held of a symbol, as the portfolio table shows it: the row's quantity, and
  nothing without a row.\<close>

definition position :: "ledger \<Rightarrow> string \<Rightarrow> rat" where
  "position s symbol = (case holdings s symbol of Some h \<Rightarrow> held_quantity h | None \<Rightarrow> 0)"

text \<open>
  Quote prices are closing prices and are not negative. Of a session only this much is
  needed: every SELL that executes does so at a price that is not negative. A SELL that
  is refused, a BUY and a deposit are not constrained, whatever the quote.
\<close>

fun sale_nonneg :: "env \<Rightarrow> action \<Rightarrow> ledger \<Rightarrow> bool" where
  "sale_nonneg e (Order symbol quantity order_type) s =
     (if order_type = ''SELL'' \<and> fst (fst (place_order e symbol quantity order_type s))
      then 0 \<le> exec_price e symbol else True)"
| "sale_nonneg e (Deposit amount) s = True"

fun sales_nonneg :: "(env \<times> action) list \<Rightarrow> ledger \<Rightarrow> bool" where
  "sales_nonneg [] s = True"
| "sales_nonneg ((e, a) # rest) s =
     (sale_nonneg e a s \<and> sales_nonneg rest (snd (perform e a s)))"

text \<open>An outside world for the concrete runs below: every symbol quotes at \<open>p\<close>.\<close>

definition quoting :: "rat \<Rightarrow> env" where
  "quoting p =
     \<lparr>get_live_quote = (\<lambda>symbol. Some \<lparr>quote_symbol = symbol, quote_price = p, quote_change = 0\<rparr>),
      now = ''2024-01-01T09:15:00'',
      str_of = (\<lambda>x. ''#''),
      money = (\<lambda>x. ''#.##'')\<rparr>"

text \<open>Every row of the \<open>Holdings\<close> table has a strictly positive quantity.\<close>

definition rows_positive :: "ledger \<Rightarrow> bool" where
  "rows_positive s = (\<forall>symbol h. holdings s symbol = Some h \<longrightarrow> 0 < held_quantity h)"

section \<open>What one call does\<close>

text \<open>\<^verbatim>\<open>update_holding\<close> touches one row of one table, a refused order touches nothing, and
  an accepted order is a holding update, a cash update and one log entry.\<close>

lemma update_holding_frame:
  "update_holding e symbol qc price s = Inr s' \<Longrightarrow>
     cash_balance s' = cash_balance s \<and> transactions s' = transactions s \<and>
     (\<forall>other. other \<noteq> symbol \<longrightarrow> holdings s' other = holdings s other)"
  by (auto simp: update_holding_def Let_def split: option.splits if_splits)

lemma update_holding_row:
  "update_holding e symbol qc price s = Inr s' \<Longrightarrow> holdings s' symbol = Some h' \<Longrightarrow>
     0 < held_quantity h'"
  by (auto simp: update_holding_def Let_def split: option.splits if_splits)

lemma update_holding_rows_positive:
  assumes "update_holding e symbol qc price s = Inr s'" and "rows_positive s"
  shows "rows_positive s'"
  unfolding rows_positive_def
proof (intro allI impI)
  fix other h
  assume row: "holdings s' other = Some h"
  show "0 < held_quantity h"
  proof (cases "other = symbol")
    case True
    with row assms(1) show ?thesis by (auto dest: update_holding_row)
  next
    case False
    with update_holding_frame [OF assms(1)] row have "holdings s other = Some h" by simp
    with assms(2) show ?thesis by (simp add: rows_positive_def)
  qed
qed

lemma place_order_failed:
  "fst (fst (place_order e symbol quantity order_type s)) = False \<Longrightarrow>
     snd (place_order e symbol quantity order_type s) = s"
  by (auto simp: place_order_def Let_def split: option.splits if_splits sum.splits exn.splits)

lemma place_order_succeeded:
  assumes "place_order e symbol quantity order_type s = ((True, m), s')"
  obtains q s1 where
    "0 < quantity" and "get_live_quote e symbol = Some q" and
    "order_type = ''BUY'' \<or> order_type = ''SELL''" and
    "order_type = ''BUY'' \<longrightarrow> quote_price q * quantity \<le> cash_balance s" and
    "update_holding e symbol (if order_type = ''BUY'' then quantity else - quantity)
       (quote_price q) s = Inr s1" and
    "s' = log_transaction e symbol order_type quantity (quote_price q)
            (update_cash_balance
               (if order_type = ''BUY'' then - (quote_price q * quantity)
                else quote_price q * quantity) s1)" and
    "m = ''Successfully '' @ (if order_type = ''BUY'' then ''BOUGHT '' else ''SOLD '')
           @ str_of e quantity @ '' of '' @ symbol @ '' at $'' @ money e (quote_price q) @ ''.''"
  using assms
  by (auto simp: place_order_def Let_def get_cash_balance_def
           split: option.splits if_splits sum.splits exn.splits)

lemma place_order_state:
  "place_order e symbol quantity order_type s = ((ok, m), s') \<Longrightarrow> \<not> ok \<Longrightarrow> s' = s"
  using place_order_failed [of e symbol quantity order_type s] by simp

lemma update_holding_first_buy:
  "holdings s symbol = None \<Longrightarrow> update_holding e symbol quantity price s = Inr s1 \<Longrightarrow>
     0 < quantity \<and> holdings s1 symbol = Some \<lparr>held_quantity = quantity, average_price = price\<rparr>"
  by (auto simp: update_holding_def split: if_splits)

lemma update_holding_next_buy:
  "holdings s symbol = Some h \<Longrightarrow> 0 < quantity_delta \<Longrightarrow>
   0 < held_quantity h + quantity_delta \<Longrightarrow>
     \<exists>s1. update_holding e symbol quantity_delta trade_price s = Inr s1 \<and>
       holdings s1 symbol =
         Some \<lparr>held_quantity = held_quantity h + quantity_delta,
               average_price = (held_quantity h * average_price h + quantity_delta * trade_price)
                                 / (held_quantity h + quantity_delta)\<rparr>"
  by (simp add: update_holding_def Let_def)

lemma place_order_buy_holding:
  assumes "place_order e symbol quantity ''BUY'' s = ((True, m), s')"
  obtains s1 where "0 < quantity" and "get_live_quote e symbol \<noteq> None" and
    "update_holding e symbol quantity (exec_price e symbol) s = Inr s1" and
    "holdings s' = holdings s1"
proof -
  from assms obtain q s1 where
    "0 < quantity" and "get_live_quote e symbol = Some q" and
    "update_holding e symbol quantity (quote_price q) s = Inr s1" and
    "s' = log_transaction e symbol ''BUY'' quantity (quote_price q)
            (update_cash_balance (- (quote_price q * quantity)) s1)"
    by (auto elim: place_order_succeeded)
  then show ?thesis
    by (intro that [of s1]) (simp_all add: exec_price_def log_transaction_def update_cash_balance_def)
qed

lemma sublist_between: "m = a @ x @ b \<Longrightarrow> sublist x m"
  by simp

section \<open>What a session does\<close>

lemma perform_rows_positive:
  "rows_positive s \<Longrightarrow> rows_positive (snd (perform e a s))"
proof (cases a)
  case (Deposit amount)
  assume "rows_positive s"
  with Deposit show ?thesis
    by (simp add: add_virtual_cash_def update_cash_balance_def log_transaction_def Let_def
          rows_positive_def)
next
  case (Order symbol quantity order_type)
  assume pos: "rows_positive s"
  show ?thesis
  proof (cases "fst (fst (place_order e symbol quantity order_type s))")
    case False
    with place_order_failed [of e symbol quantity order_type s] pos Order show ?thesis by simp
  next
    case True
    then have "place_order e symbol quantity order_type s =
        ((True, snd (fst (place_order e symbol quantity order_type s))),
         snd (place_order e symbol quantity order_type s))"
      by (simp add: prod_eq_iff)
    then obtain q s1 where
      "get_live_quote e symbol = Some q" and
      u: "update_holding e symbol (if order_type = ''BUY'' then quantity else - quantity)
          (quote_price q) s = Inr s1" and
      t: "snd (place_order e symbol quantity order_type s) =
          log_transaction e symbol order_type quantity (quote_price q)
            (update_cash_balance
               (if order_type = ''BUY'' then - (quote_price q * quantity)
                else quote_price q * quantity) s1)"
      by (rule place_order_succeeded)
    from update_holding_rows_positive [OF u pos] have "rows_positive s1" .
    with t Order show ?thesis
      by (simp add: log_transaction_def update_cash_balance_def rows_positive_def)
  qed
qed

lemma run_rows_positive: "rows_positive s \<Longrightarrow> rows_positive (run steps s)"
proof (induction steps arbitrary: s)
  case Nil
  then show ?case by simp
next
  case (Cons step steps)
  obtain e a where "step = (e, a)" by (cases step)
  with Cons perform_rows_positive [of s e a] show ?case by simp
qed

lemma rows_positive_initial: "rows_positive initialize_database"
  by (simp add: rows_positive_def initialize_database_def)

lemma perform_cash_nonneg:
  assumes "0 \<le> cash_balance s" and "sale_nonneg e a s"
  shows "0 \<le> cash_balance (snd (perform e a s))"
proof (cases a)
  case (Deposit amount)
  with assms(1) show ?thesis
    by (simp add: add_virtual_cash_def update_cash_balance_def log_transaction_def Let_def)
next
  case (Order symbol quantity order_type)
  show ?thesis
  proof (cases "fst (fst (place_order e symbol quantity order_type s))")
    case False
    with place_order_failed [of e symbol quantity order_type s] assms(1) Order show ?thesis
      by simp
  next
    case True
    then have "place_order e symbol quantity order_type s =
        ((True, snd (fst (place_order e symbol quantity order_type s))),
         snd (place_order e symbol quantity order_type s))"
      by (simp add: prod_eq_iff)
    then obtain q s1 where
      qty: "0 < quantity" and
      q: "get_live_quote e symbol = Some q" and
      ty: "order_type = ''BUY'' \<or> order_type = ''SELL''" and
      funds: "order_type = ''BUY'' \<longrightarrow> quote_price q * quantity \<le> cash_balance s" and
      u: "update_holding e symbol (if order_type = ''BUY'' then quantity else - quantity)
          (quote_price q) s = Inr s1" and
      t: "snd (place_order e symbol quantity order_type s) =
          log_transaction e symbol order_type quantity (quote_price q)
            (update_cash_balance
               (if order_type = ''BUY'' then - (quote_price q * quantity)
                else quote_price q * quantity) s1)"
      by (rule place_order_succeeded)
    from update_holding_frame [OF u] have c1: "cash_balance s1 = cash_balance s" by simp
    show ?thesis
    proof (cases "order_type = ''BUY''")
      case True
      with funds t c1 Order show ?thesis
        by (simp add: log_transaction_def update_cash_balance_def)
    next
      case False
      with ty have sell: "order_type = ''SELL''" by simp
      with assms(2) Order True q have "0 \<le> quote_price q"
        by (simp add: exec_price_def)
      with qty have "0 \<le> quote_price q * quantity" by simp
      with sell t c1 assms(1) Order show ?thesis
        by (simp add: log_transaction_def update_cash_balance_def)
    qed
  qed
qed

lemma sales_nonneg_take: "sales_nonneg steps s \<Longrightarrow> sales_nonneg (take n steps) s"
proof (induction steps arbitrary: s n)
  case Nil
  then show ?case by simp
next
  case (Cons step steps)
  obtain e a where "step = (e, a)" by (cases step)
  with Cons show ?case by (cases n) simp_all
qed

lemma run_cash_nonneg:
  "0 \<le> cash_balance s \<Longrightarrow> sales_nonneg steps s \<Longrightarrow> 0 \<le> cash_balance (run steps s)"
proof (induction steps arbitrary: s)
  case Nil
  then show ?case by simp
next
  case (Cons step steps)
  obtain e a where step: "step = (e, a)" by (cases step)
  with Cons.prems have "0 \<le> cash_balance (snd (perform e a s))"
    by (simp add: perform_cash_nonneg)
  with Cons.IH [of "snd (perform e a s)"] Cons.prems step show ?case by simp
qed

text \<open>A session in which no quote is negative satisfies \<open>sales_nonneg\<close>, from any ledger.\<close>

lemma sales_nonneg_quotes:
  "list_all (\<lambda>(e, a). \<forall>symbol q. get_live_quote e symbol = Some q \<longrightarrow> 0 \<le> quote_price q) steps
     \<Longrightarrow> sales_nonneg steps s"
proof (induction steps arbitrary: s)
  case Nil
  then show ?case by simp
next
  case (Cons step steps)
  obtain e a where step: "step = (e, a)" by (cases step)
  with Cons.prems have
    quotes: "\<forall>symbol q. get_live_quote e symbol = Some q \<longrightarrow> 0 \<le> quote_price q"
    by simp
  have "sale_nonneg e a t" for t
  proof (cases a)
    case (Deposit amount)
    then show ?thesis by simp
  next
    case (Order symbol quantity order_type)
    from quotes have "0 \<le> exec_price e symbol"
      by (simp add: exec_price_def split: option.splits)
    with Order show ?thesis by simp
  qed
  with Cons step show ?case by simp
qed

lemma buys_grow:
  "holdings s symbol = Some h \<Longrightarrow> 0 < held_quantity h \<Longrightarrow> buys symbol bs s = Some s' \<Longrightarrow>
     \<exists>h'. holdings s' symbol = Some h' \<and> 0 < held_quantity h' \<and>
       held_quantity h' = held_quantity h + (\<Sum>(e, q)\<leftarrow>bs. q) \<and>
       average_price h' * held_quantity h' =
         average_price h * held_quantity h + (\<Sum>(e, q)\<leftarrow>bs. q * exec_price e symbol)"
proof (induction bs arbitrary: s h)
  case Nil
  then show ?case by simp
next
  case (Cons b bs)
  obtain e quantity where b: "b = (e, quantity)" by (cases b)
  from Cons.prems(3) b obtain m t where
    ok: "place_order e symbol quantity ''BUY'' s = ((True, m), t)" and
    rest: "buys symbol bs t = Some s'"
    by (auto split: prod.splits bool.splits)
  from ok obtain s1 where
    qty: "0 < quantity" and
    u: "update_holding e symbol quantity (exec_price e symbol) s = Inr s1" and
    ht: "holdings t = holdings s1"
    by (rule place_order_buy_holding)
  let ?n = "held_quantity h + quantity"
  let ?h1 = "\<lparr>held_quantity = ?n,
              average_price = (held_quantity h * average_price h + quantity * exec_price e symbol) / ?n\<rparr>"
  from Cons.prems(2) qty have n: "0 < ?n" by simp
  from update_holding_next_buy [OF Cons.prems(1) qty n, of e "exec_price e symbol"] u ht
  have row: "holdings t symbol = Some ?h1" by simp
  from n have pos: "0 < held_quantity ?h1" by simp
  from Cons.IH [OF row pos rest] obtain h' where
    h': "holdings s' symbol = Some h'" "0 < held_quantity h'"
      "held_quantity h' = ?n + (\<Sum>(e, q)\<leftarrow>bs. q)"
      "average_price h' * held_quantity h' =
         average_price ?h1 * held_quantity ?h1 + (\<Sum>(e, q)\<leftarrow>bs. q * exec_price e symbol)"
    by auto
  from n have "average_price ?h1 * held_quantity ?h1 =
      average_price h * held_quantity h + quantity * exec_price e symbol"
    by (simp add: mult.commute)
  with h' b show ?case by (simp add: add.assoc)
qed

lemma buys_quoted:
  "buys symbol bs s = Some s' \<Longrightarrow> (e, quantity) \<in> set bs \<Longrightarrow>
     0 < quantity \<and> get_live_quote e symbol \<noteq> None"
proof (induction bs arbitrary: s)
  case Nil
  then show ?case by simp
next
  case (Cons b bs)
  obtain e1 q1 where b: "b = (e1, q1)" by (cases b)
  from Cons.prems(1) b obtain m t where
    ok: "place_order e1 symbol q1 ''BUY'' s = ((True, m), t)" and
    rest: "buys symbol bs t = Some s'"
    by (auto split: prod.splits bool.splits)
  from ok have first: "0 < q1 \<and> get_live_quote e1 symbol \<noteq> None"
    by (auto elim: place_order_buy_holding)
  show ?case
  proof (cases "(e, quantity) = b")
    case True
    with first b show ?thesis by simp
  next
    case False
    with Cons.prems(2) have "(e, quantity) \<in> set bs" by simp
    with Cons.IH [OF rest] show ?thesis .
  qed
qed

text \<open>Two concrete sessions on the fresh database.\<close>

lemma demo_buy:
  "place_order (quoting 100) ''X'' 10 ''BUY'' initialize_database =
     ((True, ''Successfully BOUGHT # of X at $#.##.''),
      \<lparr>cash_balance = 99000,
       holdings = [''X'' \<mapsto> \<lparr>held_quantity = 10, average_price = 100\<rparr>],
       transactions = [\<lparr>txn_symbol = ''X'', txn_type = ''BUY'', txn_quantity = 10,
                        txn_price = 100, txn_timestamp = ''2024-01-01T09:15:00''\<rparr>]\<rparr>)"
  by (simp add: place_order_def update_holding_def update_cash_balance_def log_transaction_def
        get_cash_balance_def quoting_def initialize_database_def INITIAL_CASH_def)

lemma demo_buy_sell:
  "run [(quoting 100, Order ''X'' 10 ''BUY''), (quoting 300, Order ''X'' 10 ''SELL'')]
       initialize_database =
     \<lparr>cash_balance = 102000, holdings = Map.empty,
      transactions =
        [\<lparr>txn_symbol = ''X'', txn_type = ''BUY'', txn_quantity = 10,
          txn_price = 100, txn_timestamp = ''2024-01-01T09:15:00''\<rparr>,
         \<lparr>txn_symbol = ''X'', txn_type = ''SELL'', txn_quantity = 10,
          txn_price = 300, txn_timestamp = ''2024-01-01T09:15:00''\<rparr>]\<rparr>"
  by (simp add: demo_buy)
     (simp add: place_order_def update_holding_def update_cash_balance_def log_transaction_def
        get_cash_balance_def quoting_def)

lemma demo_buys:
  "buys ''X'' [(quoting 100, 10), (quoting 200, 10)] initialize_database =
     Some \<lparr>cash_balance = 97000,
           holdings = [''X'' \<mapsto> \<lparr>held_quantity = 20, average_price = 150\<rparr>],
           transactions =
             [\<lparr>txn_symbol = ''X'', txn_type = ''BUY'', txn_quantity = 10,
               txn_price = 100, txn_timestamp = ''2024-01-01T09:15:00''\<rparr>,
              \<lparr>txn_symbol = ''X'', txn_type = ''BUY'', txn_quantity = 10,
               txn_price = 200, txn_timestamp = ''2024-01-01T09:15:00''\<rparr>]\<rparr>"
  by (simp add: demo_buy)
     (simp add: place_order_def update_holding_def update_cash_balance_def log_transaction_def
        get_cash_balance_def quoting_def)

section \<open>Orders that are refused\<close>

text \<open>
  C2. A SELL of more than the held quantity, and a SELL of a symbol without a holding, fail
  and return the ledger exactly as it was: cash balance, holdings and log. Once the order
  has passed the checks that come first (positive quantity, a quote), the failure is the
  \<^verbatim>\<open>ValueError\<close> raised by \<^verbatim>\<open>update_holding\<close>, with its message.
\<close>

theorem sell_more_than_held:
  "holdings s symbol = None \<or> (\<exists>h. holdings s symbol = Some h \<and> held_quantity h < quantity) \<Longrightarrow>
     fst (fst (place_order e symbol quantity ''SELL'' s)) = False \<and>
     snd (place_order e symbol quantity ''SELL'' s) = s \<and>
     (0 < quantity \<and> get_live_quote e symbol \<noteq> None \<longrightarrow>
        update_holding e symbol (- quantity) (exec_price e symbol) s =
          Inl (ValueError (snd (fst (place_order e symbol quantity ''SELL'' s)))) \<and>
        snd (fst (place_order e symbol quantity ''SELL'' s)) =
          (case holdings s symbol of
             None \<Rightarrow> ''Cannot sell '' @ symbol @ ''. You do not own this stock.''
           | Some h \<Rightarrow> ''Insufficient quantity to sell. You only have ''
                         @ str_of e (held_quantity h) @ ''.''))"
  by (auto simp: place_order_def update_holding_def exec_price_def Let_def
           split: option.splits)

theorem sell_more_than_held_witness:
  "held_quantity \<lparr>held_quantity = 10, average_price = 100\<rparr> < (11::rat) \<and>
   place_order (quoting 300) ''X'' 11 ''SELL''
       (snd (place_order (quoting 100) ''X'' 10 ''BUY'' initialize_database)) =
     ((False, ''Insufficient quantity to sell. You only have #.''),
      snd (place_order (quoting 100) ''X'' 10 ''BUY'' initialize_database)) \<and>
   place_order (quoting 300) ''Y'' 1 ''SELL'' initialize_database =
     ((False, ''Cannot sell Y. You do not own this stock.''), initialize_database)"
  using sell_more_than_held [of "snd (place_order (quoting 100) ''X'' 10 ''BUY'' initialize_database)"
          "''X''" 11 "quoting 300"]
        sell_more_than_held [of initialize_database "''Y''" 1 "quoting 300"]
  by (simp add: demo_buy prod_eq_iff) (simp add: quoting_def initialize_database_def)

text \<open>
  C3. A BUY whose total cost \<open>price * quantity\<close> is strictly greater than the cash balance
  fails with the insufficient-cash message and returns the ledger unchanged. A BUY whose
  total cost is at most the cash balance, equality included, is not refused for funds, and
  it succeeds whenever the quantity already held is not negative.
\<close>

theorem buy_funds_check:
  "0 < quantity \<Longrightarrow> get_live_quote e symbol = Some q \<Longrightarrow>
     (cash_balance s < quote_price q * quantity \<longrightarrow>
        place_order e symbol quantity ''BUY'' s =
          ((False, ''Insufficient cash. Need $'' @ money e (quote_price q * quantity)
                   @ '', have $'' @ money e (cash_balance s) @ ''.''), s)) \<and>
     (quote_price q * quantity \<le> cash_balance s \<longrightarrow>
        \<not> prefix ''Insufficient cash.'' (snd (fst (place_order e symbol quantity ''BUY'' s))) \<and>
        (0 \<le> position s symbol \<longrightarrow> fst (fst (place_order e symbol quantity ''BUY'' s)) = True))"
  by (auto simp: place_order_def update_holding_def get_cash_balance_def position_def Let_def
           split: option.splits sum.splits if_splits)

theorem buy_funds_check_witness:
  "(0::rat) < 1001 \<and> get_live_quote (quoting 100) ''X'' =
       Some \<lparr>quote_symbol = ''X'', quote_price = 100, quote_change = 0\<rparr> \<and>
   place_order (quoting 100) ''X'' 1001 ''BUY'' initialize_database =
     ((False, ''Insufficient cash. Need $#.##, have $#.##.''), initialize_database) \<and>
   fst (fst (place_order (quoting 100) ''X'' 1000 ''BUY'' initialize_database)) = True"
  using buy_funds_check [of 1001 "quoting 100" "''X''"
          "\<lparr>quote_symbol = ''X'', quote_price = 100, quote_change = 0\<rparr>" initialize_database]
        buy_funds_check [of 1000 "quoting 100" "''X''"
          "\<lparr>quote_symbol = ''X'', quote_price = 100, quote_change = 0\<rparr>" initialize_database]
  by (simp add: quoting_def initialize_database_def INITIAL_CASH_def position_def)

section \<open>Orders that execute\<close>

text \<open>
  C5. After a successful BUY of \<open>quantity\<close> at the quoted price the cash balance is the
  balance before the order minus price times quantity; after a successful SELL it is the
  balance before plus price times quantity. (A successful order is a BUY or a SELL.)
\<close>

theorem place_order_cash:
  "place_order e symbol quantity order_type s = ((True, m), s') \<Longrightarrow>
     \<exists>q. get_live_quote e symbol = Some q \<and>
       (order_type = ''BUY'' \<or> order_type = ''SELL'') \<and>
       (order_type = ''BUY'' \<longrightarrow>
          cash_balance s' = cash_balance s - quote_price q * quantity) \<and>
       (order_type = ''SELL'' \<longrightarrow>
          cash_balance s' = cash_balance s + quote_price q * quantity)"
proof -
  assume "place_order e symbol quantity order_type s = ((True, m), s')"
  then obtain q s1 where
    q: "get_live_quote e symbol = Some q" and
    t: "order_type = ''BUY'' \<or> order_type = ''SELL''" and
    u: "update_holding e symbol (if order_type = ''BUY'' then quantity else - quantity)
          (quote_price q) s = Inr s1" and
    s': "s' = log_transaction e symbol order_type quantity (quote_price q)
            (update_cash_balance
               (if order_type = ''BUY'' then - (quote_price q * quantity)
                else quote_price q * quantity) s1)"
    by (rule place_order_succeeded)
  from update_holding_frame [OF u] have "cash_balance s1 = cash_balance s" by simp
  with s' have
    "order_type = ''BUY'' \<longrightarrow> cash_balance s' = cash_balance s - quote_price q * quantity"
    "order_type = ''SELL'' \<longrightarrow> cash_balance s' = cash_balance s + quote_price q * quantity"
    by (simp_all add: log_transaction_def update_cash_balance_def)
  with q t show ?thesis by blast
qed

theorem place_order_cash_witness:
  "place_order (quoting 100) ''X'' 10 ''BUY'' initialize_database =
     ((True, ''Successfully BOUGHT # of X at $#.##.''),
      snd (place_order (quoting 100) ''X'' 10 ''BUY'' initialize_database)) \<and>
   cash_balance (snd (place_order (quoting 100) ''X'' 10 ''BUY'' initialize_database)) =
     cash_balance initialize_database - 100 * 10 \<and>
   place_order (quoting 300) ''X'' 5 ''SELL''
       (snd (place_order (quoting 100) ''X'' 10 ''BUY'' initialize_database)) =
     ((True, ''Successfully SOLD # of X at $#.##.''),
      snd (place_order (quoting 300) ''X'' 5 ''SELL''
        (snd (place_order (quoting 100) ''X'' 10 ''BUY'' initialize_database)))) \<and>
   cash_balance (snd (place_order (quoting 300) ''X'' 5 ''SELL''
       (snd (place_order (quoting 100) ''X'' 10 ''BUY'' initialize_database)))) =
     cash_balance (snd (place_order (quoting 100) ''X'' 10 ''BUY'' initialize_database))
       + 300 * 5"
proof -
  let ?t = "snd (place_order (quoting 100) ''X'' 10 ''BUY'' initialize_database)"
  have r: "place_order (quoting 100) ''X'' 10 ''BUY'' initialize_database =
     ((True, ''Successfully BOUGHT # of X at $#.##.''), ?t)"
    by (simp add: demo_buy)
  have r': "place_order (quoting 300) ''X'' 5 ''SELL'' ?t =
     ((True, ''Successfully SOLD # of X at $#.##.''),
      snd (place_order (quoting 300) ''X'' 5 ''SELL'' ?t))"
    by (simp add: demo_buy)
       (simp add: place_order_def update_holding_def update_cash_balance_def
          log_transaction_def quoting_def)
  have quotes: "get_live_quote (quoting 100) ''X'' =
      Some \<lparr>quote_symbol = ''X'', quote_price = 100, quote_change = 0\<rparr>"
    "get_live_quote (quoting 300) ''X'' =
      Some \<lparr>quote_symbol = ''X'', quote_price = 300, quote_change = 0\<rparr>"
    by (simp_all add: quoting_def)
  from place_order_cash [OF r] quotes
  have "cash_balance ?t = cash_balance initialize_database - 100 * 10" by simp
  moreover from place_order_cash [OF r'] quotes
  have "cash_balance (snd (place_order (quoting 300) ''X'' 5 ''SELL'' ?t)) =
      cash_balance ?t + 300 * 5" by simp
  ultimately show ?thesis using r r' by simp
qed

text \<open>
  C8. A successful order appends exactly one row to the transaction log, carrying the
  order's symbol, its type, the ordered quantity and the execution price; a failed order
  appends nothing.
\<close>

theorem place_order_log:
  "place_order e symbol quantity order_type s = ((ok, m), s') \<Longrightarrow>
     (ok \<longrightarrow> (\<exists>q. get_live_quote e symbol = Some q \<and>
        (order_type = ''BUY'' \<or> order_type = ''SELL'') \<and>
        transactions s' = transactions s @
          [\<lparr>txn_symbol = symbol, txn_type = order_type, txn_quantity = quantity,
            txn_price = quote_price q, txn_timestamp = now e\<rparr>])) \<and>
     (\<not> ok \<longrightarrow> transactions s' = transactions s)"
proof (cases ok)
  case False
  assume "place_order e symbol quantity order_type s = ((ok, m), s')"
  with False show ?thesis by (auto dest: place_order_state)
next
  case True
  assume "place_order e symbol quantity order_type s = ((ok, m), s')"
  with True have "place_order e symbol quantity order_type s = ((True, m), s')" by simp
  then obtain q s1 where
    q: "get_live_quote e symbol = Some q" and
    t: "order_type = ''BUY'' \<or> order_type = ''SELL''" and
    u: "update_holding e symbol (if order_type = ''BUY'' then quantity else - quantity)
          (quote_price q) s = Inr s1" and
    s': "s' = log_transaction e symbol order_type quantity (quote_price q)
            (update_cash_balance
               (if order_type = ''BUY'' then - (quote_price q * quantity)
                else quote_price q * quantity) s1)"
    by (rule place_order_succeeded)
  from update_holding_frame [OF u] have "transactions s1 = transactions s" by simp
  with s' have "transactions s' = transactions s @
          [\<lparr>txn_symbol = symbol, txn_type = order_type, txn_quantity = quantity,
            txn_price = quote_price q, txn_timestamp = now e\<rparr>]"
    by (simp add: log_transaction_def update_cash_balance_def)
  with q t True show ?thesis by blast
qed

theorem place_order_log_witness:
  "transactions (snd (place_order (quoting 100) ''X'' 10 ''BUY'' initialize_database)) =
     transactions initialize_database @
       [\<lparr>txn_symbol = ''X'', txn_type = ''BUY'', txn_quantity = 10,
         txn_price = 100, txn_timestamp = ''2024-01-01T09:15:00''\<rparr>] \<and>
   transactions (snd (place_order (quoting 100) ''X'' 0 ''BUY'' initialize_database)) =
     transactions initialize_database"
proof -
  have r: "place_order (quoting 100) ''X'' 10 ''BUY'' initialize_database =
     ((True, ''Successfully BOUGHT # of X at $#.##.''),
      snd (place_order (quoting 100) ''X'' 10 ''BUY'' initialize_database))"
    by (simp add: demo_buy)
  have f: "place_order (quoting 100) ''X'' 0 ''BUY'' initialize_database =
     ((False, ''Quantity must be positive.''),
      snd (place_order (quoting 100) ''X'' 0 ''BUY'' initialize_database))"
    by (simp add: place_order_def)
  from place_order_log [OF r] place_order_log [OF f] show ?thesis
    by (simp add: quoting_def)
qed

text \<open>
  C6. \<^verbatim>\<open>update_holding\<close> on an existing holding with \<open>quantity_delta \<le> 0\<close> and a strictly
  positive new quantity succeeds and stores the new quantity with the average price it
  found. At the level of orders: after any call of \<^verbatim>\<open>place_order\<close> that is not a BUY, every
  holding in the table has the average price it had before the call.
\<close>

theorem sell_keeps_average_price:
  "(holdings s symbol = Some h \<and> quantity_delta \<le> 0 \<and> 0 < held_quantity h + quantity_delta \<longrightarrow>
      (\<exists>s'. update_holding e symbol quantity_delta trade_price s = Inr s' \<and>
         holdings s' symbol = Some \<lparr>held_quantity = held_quantity h + quantity_delta,
                                    average_price = average_price h\<rparr>)) \<and>
   (order_type \<noteq> ''BUY'' \<and> place_order e symbol quantity order_type s = (r, t) \<and>
      holdings t other = Some h' \<longrightarrow>
      (\<exists>h0. holdings s other = Some h0 \<and> average_price h' = average_price h0))"
proof (intro conjI impI)
  assume "holdings s symbol = Some h \<and> quantity_delta \<le> 0 \<and> 0 < held_quantity h + quantity_delta"
  then show "\<exists>s'. update_holding e symbol quantity_delta trade_price s = Inr s' \<and>
         holdings s' symbol = Some \<lparr>held_quantity = held_quantity h + quantity_delta,
                                    average_price = average_price h\<rparr>"
    by (simp add: update_holding_def Let_def)
next
  assume a: "order_type \<noteq> ''BUY'' \<and> place_order e symbol quantity order_type s = (r, t) \<and>
      holdings t other = Some h'"
  show "\<exists>h0. holdings s other = Some h0 \<and> average_price h' = average_price h0"
  proof (cases "fst r")
    case False
    with a place_order_failed [of e symbol quantity order_type s] show ?thesis by simp
  next
    case True
    with a have "place_order e symbol quantity order_type s = ((True, snd r), t)"
      by (simp add: prod_eq_iff)
    then obtain q s1 where
      "0 < quantity" and "get_live_quote e symbol = Some q" and
      ty: "order_type = ''BUY'' \<or> order_type = ''SELL''" and
      u: "update_holding e symbol (if order_type = ''BUY'' then quantity else - quantity)
          (quote_price q) s = Inr s1" and
      t: "t = log_transaction e symbol order_type quantity (quote_price q)
            (update_cash_balance
               (if order_type = ''BUY'' then - (quote_price q * quantity)
                else quote_price q * quantity) s1)"
      by (rule place_order_succeeded)
    from t have ht: "holdings t = holdings s1"
      by (simp add: log_transaction_def update_cash_balance_def)
    from a ty have u': "update_holding e symbol (- quantity) (quote_price q) s = Inr s1"
      using u by simp
    show ?thesis
    proof (cases "other = symbol")
      case False
      with update_holding_frame [OF u'] ht a show ?thesis by simp
    next
      case True
      with u' ht a \<open>0 < quantity\<close> show ?thesis
        by (auto simp: update_holding_def Let_def split: option.splits if_splits)
    qed
  qed
qed

theorem sell_keeps_average_price_witness:
  "(\<exists>s'. update_holding (quoting 300) ''X'' (- 5) 300
            \<lparr>cash_balance = 97000,
             holdings = [''X'' \<mapsto> \<lparr>held_quantity = 20, average_price = 150\<rparr>],
             transactions = []\<rparr> = Inr s' \<and>
         holdings s' ''X'' = Some \<lparr>held_quantity = 15, average_price = 150\<rparr>) \<and>
   holdings (snd (place_order (quoting 300) ''X'' 5 ''SELL''
            \<lparr>cash_balance = 97000,
             holdings = [''X'' \<mapsto> \<lparr>held_quantity = 20, average_price = 150\<rparr>],
             transactions = []\<rparr>)) ''X'' = Some \<lparr>held_quantity = 15, average_price = 150\<rparr> \<and>
   (\<exists>h0. [''X'' \<mapsto> \<lparr>held_quantity = 20, average_price = 150\<rparr>] ''X'' = Some h0 \<and>
         average_price \<lparr>held_quantity = 15, average_price = 150\<rparr> = average_price h0)"
  using sell_keeps_average_price [where s = "\<lparr>cash_balance = 97000,
             holdings = [''X'' \<mapsto> \<lparr>held_quantity = 20, average_price = 150\<rparr>],
             transactions = []\<rparr>" and symbol = "''X''"
          and h = "\<lparr>held_quantity = 20, average_price = 150\<rparr>" and quantity_delta = "- 5"
          and e = "quoting 300" and trade_price = 300 and order_type = "''SELL''"
          and quantity = 5
          and r = "fst (place_order (quoting 300) ''X'' 5 ''SELL''
            \<lparr>cash_balance = 97000,
             holdings = [''X'' \<mapsto> \<lparr>held_quantity = 20, average_price = 150\<rparr>],
             transactions = []\<rparr>)"
          and t = "snd (place_order (quoting 300) ''X'' 5 ''SELL''
            \<lparr>cash_balance = 97000,
             holdings = [''X'' \<mapsto> \<lparr>held_quantity = 20, average_price = 150\<rparr>],
             transactions = []\<rparr>)"
          and other = "''X''" and h' = "\<lparr>held_quantity = 15, average_price = 150\<rparr>"]
  by (simp add: place_order_def update_holding_def update_cash_balance_def log_transaction_def
        get_cash_balance_def quoting_def)

text \<open>
  C1. After a non-empty sequence of successful BUY orders on a symbol that had no holding,
  with quantities \<open>q\<^sub>1 \<dots> q\<^sub>n\<close> at execution prices \<open>p\<^sub>1 \<dots> p\<^sub>n\<close>, the holding has
  quantity \<open>q\<^sub>1 + \<dots> + q\<^sub>n\<close> and its average price times that quantity is exactly
  \<open>q\<^sub>1 * p\<^sub>1 + \<dots> + q\<^sub>n * p\<^sub>n\<close>, where every order had a positive quantity and a quote,
  so that \<open>exec_price\<close> is the quoted price. Each single addition of shares to an existing holding
  stores \<open>(current_qty * current_avg + quantity_delta * trade_price) / new_qty\<close> as the
  new average price.
\<close>

theorem buys_weighted_average:
  "(holdings s symbol = None \<and> bs \<noteq> [] \<and> buys symbol bs s = Some s' \<longrightarrow>
      (\<exists>h. holdings s' symbol = Some h \<and>
         held_quantity h = (\<Sum>(e, q)\<leftarrow>bs. q) \<and>
         average_price h * (\<Sum>(e, q)\<leftarrow>bs. q) = (\<Sum>(e, q)\<leftarrow>bs. q * exec_price e symbol)) \<and>
      list_all (\<lambda>(e, q). 0 < q \<and> get_live_quote e symbol \<noteq> None) bs) \<and>
   (holdings t symbol = Some held \<and> 0 < quantity_delta \<and> 0 < held_quantity held + quantity_delta \<longrightarrow>
      (\<exists>t'. update_holding world symbol quantity_delta trade_price t = Inr t' \<and>
         holdings t' symbol =
           Some \<lparr>held_quantity = held_quantity held + quantity_delta,
                 average_price =
                   (held_quantity held * average_price held + quantity_delta * trade_price)
                     / (held_quantity held + quantity_delta)\<rparr>))"
proof (rule conjI; rule impI)
  assume a: "holdings s symbol = None \<and> bs \<noteq> [] \<and> buys symbol bs s = Some s'"
  then obtain b rest where bs: "bs = b # rest" by (cases bs) auto
  obtain e quantity where b: "b = (e, quantity)" by (cases b)
  from a bs b obtain m t1 where
    ok: "place_order e symbol quantity ''BUY'' s = ((True, m), t1)" and
    rest: "buys symbol rest t1 = Some s'"
    by (auto split: prod.splits bool.splits)
  from ok obtain s1 where
    u: "update_holding e symbol quantity (exec_price e symbol) s = Inr s1" and
    ht: "holdings t1 = holdings s1"
    by (rule place_order_buy_holding)
  from a update_holding_first_buy [OF _ u] ht have
    qty: "0 < quantity" and
    row: "holdings t1 symbol = Some \<lparr>held_quantity = quantity, average_price = exec_price e symbol\<rparr>"
    by simp_all
  from buys_grow [OF row _ rest] qty obtain h where
    "holdings s' symbol = Some h"
    "held_quantity h = quantity + (\<Sum>(e, q)\<leftarrow>rest. q)"
    "average_price h * held_quantity h =
       exec_price e symbol * quantity + (\<Sum>(e, q)\<leftarrow>rest. q * exec_price e symbol)"
    by auto
  with bs b have "\<exists>h. holdings s' symbol = Some h \<and>
         held_quantity h = (\<Sum>(e, q)\<leftarrow>bs. q) \<and>
         average_price h * (\<Sum>(e, q)\<leftarrow>bs. q) = (\<Sum>(e, q)\<leftarrow>bs. q * exec_price e symbol)"
    by (simp add: mult.commute)
  moreover from a have "list_all (\<lambda>(e, q). 0 < q \<and> get_live_quote e symbol \<noteq> None) bs"
    by (auto simp: list_all_iff dest: buys_quoted)
  ultimately show "(\<exists>h. holdings s' symbol = Some h \<and>
         held_quantity h = (\<Sum>(e, q)\<leftarrow>bs. q) \<and>
         average_price h * (\<Sum>(e, q)\<leftarrow>bs. q) = (\<Sum>(e, q)\<leftarrow>bs. q * exec_price e symbol)) \<and>
      list_all (\<lambda>(e, q). 0 < q \<and> get_live_quote e symbol \<noteq> None) bs"
    by simp
next
  assume "holdings t symbol = Some held \<and> 0 < quantity_delta \<and> 0 < held_quantity held + quantity_delta"
  then show "\<exists>t'. update_holding world symbol quantity_delta trade_price t = Inr t' \<and>
         holdings t' symbol =
           Some \<lparr>held_quantity = held_quantity held + quantity_delta,
                 average_price =
                   (held_quantity held * average_price held + quantity_delta * trade_price)
                     / (held_quantity held + quantity_delta)\<rparr>"
    by (auto dest: update_holding_next_buy)
qed

theorem buys_weighted_average_witness:
  "holdings initialize_database ''X'' = None \<and>
   (\<exists>h. holdings (the (buys ''X'' [(quoting 100, 10), (quoting 200, 10)] initialize_database)) ''X''
          = Some h \<and>
        held_quantity h = 10 + 10 \<and>
        average_price h * (10 + 10) = 10 * 100 + 10 * 200) \<and>
   (\<exists>t'. update_holding (quoting 200) ''X'' 10 200
            (snd (place_order (quoting 100) ''X'' 10 ''BUY'' initialize_database)) = Inr t' \<and>
         holdings t' ''X'' = Some \<lparr>held_quantity = 20, average_price = 150\<rparr>)"
proof -
  let ?bs = "[(quoting 100, 10), (quoting 200, 10 :: rat)]"
  let ?t = "snd (place_order (quoting 100) ''X'' 10 ''BUY'' initialize_database)"
  have fresh: "holdings initialize_database ''X'' = None"
    by (simp add: initialize_database_def)
  have ran: "buys ''X'' ?bs initialize_database =
      Some (the (buys ''X'' ?bs initialize_database))"
    by (subst (1 2) demo_buys) simp
  have row: "holdings ?t ''X'' = Some \<lparr>held_quantity = 10, average_price = 100\<rparr>"
    by (simp add: demo_buy)
  have prices: "exec_price (quoting 100) ''X'' = 100" "exec_price (quoting 200) ''X'' = 200"
    by (simp_all add: exec_price_def quoting_def)
  from buys_weighted_average [where s = initialize_database and symbol = "''X''" and bs = ?bs
      and s' = "the (buys ''X'' ?bs initialize_database)" and t = ?t
      and held = "\<lparr>held_quantity = 10, average_price = 100\<rparr>" and quantity_delta = 10
      and world = "quoting 200" and trade_price = 200] fresh ran row prices
  show ?thesis by simp
qed

section \<open>Invariants of the ledger\<close>

text \<open>
  C4. In every reachable ledger a symbol has a row in the holdings table if and only if
  the quantity held of it is strictly positive. A SELL of exactly the held quantity
  succeeds and deletes the row. Whatever \<^verbatim>\<open>update_holding\<close> writes for its symbol has a
  strictly positive quantity.
\<close>

theorem holding_exists_iff_positive:
  "((holdings (run steps initialize_database) symbol \<noteq> None) =
      (0 < position (run steps initialize_database) symbol)) \<and>
   (holdings s symbol = Some h \<and> 0 < held_quantity h \<and> get_live_quote e symbol \<noteq> None \<longrightarrow>
      fst (fst (place_order e symbol (held_quantity h) ''SELL'' s)) = True \<and>
      holdings (snd (place_order e symbol (held_quantity h) ''SELL'' s)) symbol = None) \<and>
   (update_holding e symbol quantity_change price s = Inr s' \<and> holdings s' symbol = Some h'
      \<longrightarrow> 0 < held_quantity h')"
proof (intro conjI impI)
  from run_rows_positive [OF rows_positive_initial, of steps]
  show "(holdings (run steps initialize_database) symbol \<noteq> None) =
      (0 < position (run steps initialize_database) symbol)"
    by (auto simp: rows_positive_def position_def split: option.splits)
next
  assume a: "holdings s symbol = Some h \<and> 0 < held_quantity h \<and> get_live_quote e symbol \<noteq> None"
  then show "fst (fst (place_order e symbol (held_quantity h) ''SELL'' s)) = True"
    by (auto simp: place_order_def update_holding_def Let_def)
  from a show "holdings (snd (place_order e symbol (held_quantity h) ''SELL'' s)) symbol = None"
    by (auto simp: place_order_def update_holding_def update_cash_balance_def
          log_transaction_def Let_def)
next
  assume "update_holding e symbol quantity_change price s = Inr s' \<and> holdings s' symbol = Some h'"
  then show "0 < held_quantity h'" by (auto dest: update_holding_row)
qed

theorem holding_exists_iff_positive_witness:
  "holdings (run [(quoting 100, Order ''X'' 10 ''BUY'')] initialize_database) ''X'' =
     Some \<lparr>held_quantity = 10, average_price = 100\<rparr> \<and>
   0 < position (run [(quoting 100, Order ''X'' 10 ''BUY'')] initialize_database) ''X'' \<and>
   get_live_quote (quoting 300) ''X'' \<noteq> None \<and>
   fst (fst (place_order (quoting 300) ''X'' 10 ''SELL''
     (run [(quoting 100, Order ''X'' 10 ''BUY'')] initialize_database))) = True \<and>
   holdings (snd (place_order (quoting 300) ''X'' 10 ''SELL''
     (run [(quoting 100, Order ''X'' 10 ''BUY'')] initialize_database))) ''X'' = None \<and>
   \<not> 0 < position (run [(quoting 100, Order ''X'' 10 ''BUY''),
                          (quoting 300, Order ''X'' 10 ''SELL'')] initialize_database) ''X''"
proof -
  let ?s1 = "run [(quoting 100, Order ''X'' 10 ''BUY'')] initialize_database"
  let ?s2 = "run [(quoting 100, Order ''X'' 10 ''BUY''),
                  (quoting 300, Order ''X'' 10 ''SELL'')] initialize_database"
  have row: "holdings ?s1 ''X'' = Some \<lparr>held_quantity = 10, average_price = 100\<rparr>"
    by (simp add: demo_buy)
  have quote: "get_live_quote (quoting 300) ''X'' \<noteq> None"
    by (simp add: quoting_def)
  have gone: "holdings ?s2 ''X'' = None"
    by (subst demo_buy_sell) simp
  from holding_exists_iff_positive [where steps = "[(quoting 100, Order ''X'' 10 ''BUY'')]"
      and symbol = "''X''" and s = ?s1
      and h = "\<lparr>held_quantity = 10, average_price = 100\<rparr>" and e = "quoting 300"] row quote
  have "0 < position ?s1 ''X''"
    and "fst (fst (place_order (quoting 300) ''X'' 10 ''SELL'' ?s1)) = True"
    and "holdings (snd (place_order (quoting 300) ''X'' 10 ''SELL'' ?s1)) ''X'' = None"
    by simp_all
  moreover
  from holding_exists_iff_positive [where steps = "[(quoting 100, Order ''X'' 10 ''BUY''),
      (quoting 300, Order ''X'' 10 ''SELL'')]" and symbol = "''X''"] gone
  have "\<not> 0 < position ?s2 ''X''"
    by simp
  ultimately show ?thesis using row quote by simp
qed

text \<open>
  C7. Starting from a non-negative cash balance, the cash balance is non-negative after
  every operation of a session of deposits and orders, successful or refused: a deposit
  adds a positive amount, a BUY executes only when its total cost is at most the balance,
  and a SELL adds \<open>price * quantity\<close>, where the price, a closing price, is not negative.
  \<open>run (take n steps) s\<close> is the ledger after the first \<open>n\<close> operations.
\<close>

theorem cash_never_negative:
  "0 \<le> cash_balance s \<Longrightarrow> sales_nonneg steps s \<Longrightarrow>
     0 \<le> cash_balance (run (take n steps) s)"
  by (rule run_cash_nonneg) (simp_all add: sales_nonneg_take)

theorem cash_never_negative_witness:
  "0 \<le> cash_balance initialize_database \<and>
   sales_nonneg [(quoting 100, Deposit 500), (quoting 100, Order ''X'' 10 ''BUY''),
                 (quoting (- 5), Order ''Y'' 1 ''SELL''),
                 (quoting 300, Order ''X'' 10 ''SELL'')] initialize_database \<and>
   cash_balance (run [(quoting 100, Deposit 500), (quoting 100, Order ''X'' 10 ''BUY''),
                      (quoting (- 5), Order ''Y'' 1 ''SELL''),
                      (quoting 300, Order ''X'' 10 ''SELL'')] initialize_database) = 102500 \<and>
   0 \<le> cash_balance (run (take 4 [(quoting 100, Deposit 500), (quoting 100, Order ''X'' 10 ''BUY''),
                      (quoting (- 5), Order ''Y'' 1 ''SELL''),
                      (quoting 300, Order ''X'' 10 ''SELL'')]) initialize_database)"
proof -
  let ?steps = "[(quoting 100, Deposit 500), (quoting 100, Order ''X'' 10 ''BUY''),
                 (quoting (- 5), Order ''Y'' 1 ''SELL''),
                 (quoting 300, Order ''X'' 10 ''SELL'')]"
  have c: "0 \<le> cash_balance initialize_database"
    by (simp add: initialize_database_def INITIAL_CASH_def)
  have n: "sales_nonneg ?steps initialize_database"
    by (simp add: add_virtual_cash_def place_order_def update_holding_def
          update_cash_balance_def log_transaction_def get_cash_balance_def exec_price_def
          quoting_def initialize_database_def INITIAL_CASH_def)
  have v: "cash_balance (run ?steps initialize_database) = 102500"
    by (simp add: add_virtual_cash_def place_order_def update_holding_def
          update_cash_balance_def log_transaction_def get_cash_balance_def
          quoting_def initialize_database_def INITIAL_CASH_def)
  from cash_never_negative [OF c n, of 4] c n v show ?thesis by simp
qed

section \<open>Messages\<close>

text \<open>
  C9, as stated, fails: the message for a quantity that is not positive is a fixed text,
  which names neither the symbol nor the quantity.
\<close>

theorem messages_name_symbol_counterexample:
  "place_order (quoting 100) ''INFY.NS'' 0 ''BUY'' initialize_database =
     ((False, ''Quantity must be positive.''), initialize_database) \<and>
   \<not> sublist ''INFY.NS'' ''Quantity must be positive.''"
  by (simp add: place_order_def sublist_code prefix_code)

text \<open>
  C9, amended. A success message contains the symbol, the rendered quantity and the
  rendered execution price. The message for a missing quote and the message for a SELL of
  a symbol that is not held contain the symbol. The insufficient-cash message is built
  from the required and the available amount only, the message for a SELL of more than is
  held from the held quantity only, and the messages for an invalid order type and for a
  quantity that is not positive are fixed texts. Here \<open>sublist x m\<close> is Python's
  \<^verbatim>\<open>x in m\<close> on strings.
\<close>

theorem place_order_messages:
  "place_order e symbol quantity order_type s = ((ok, m), s') \<Longrightarrow>
     (ok \<longrightarrow>
        sublist symbol m \<and> sublist (str_of e quantity) m \<and>
        sublist (money e (exec_price e symbol)) m) \<and>
     (order_type \<noteq> ''BUY'' \<and> order_type \<noteq> ''SELL'' \<longrightarrow> m = ''Invalid order type.'') \<and>
     ((order_type = ''BUY'' \<or> order_type = ''SELL'') \<and> quantity \<le> 0 \<longrightarrow>
        m = ''Quantity must be positive.'') \<and>
     ((order_type = ''BUY'' \<or> order_type = ''SELL'') \<and> 0 < quantity \<and>
      get_live_quote e symbol = None \<longrightarrow>
        \<not> ok \<and> sublist symbol m) \<and>
     (order_type = ''BUY'' \<and> 0 < quantity \<and> get_live_quote e symbol \<noteq> None \<and>
      cash_balance s < exec_price e symbol * quantity \<longrightarrow>
        m = ''Insufficient cash. Need $'' @ money e (exec_price e symbol * quantity)
              @ '', have $'' @ money e (cash_balance s) @ ''.'') \<and>
     (order_type = ''SELL'' \<and> 0 < quantity \<and> get_live_quote e symbol \<noteq> None \<and>
      holdings s symbol = None \<longrightarrow>
        \<not> ok \<and> sublist symbol m) \<and>
     (order_type = ''SELL'' \<and> 0 < quantity \<and> get_live_quote e symbol \<noteq> None \<and>
      holdings s symbol = Some h \<and> held_quantity h < quantity \<longrightarrow>
        m = ''Insufficient quantity to sell. You only have '' @ str_of e (held_quantity h) @ ''.'')"
proof -
  assume r: "place_order e symbol quantity order_type s = ((ok, m), s')"
  have success: "ok \<longrightarrow>
        sublist symbol m \<and> sublist (str_of e quantity) m \<and>
        sublist (money e (exec_price e symbol)) m"
  proof
    assume ok
    with r have "place_order e symbol quantity order_type s = ((True, m), s')" by simp
    then obtain q s1 where
      "0 < quantity" and
      q: "get_live_quote e symbol = Some q" and
      "order_type = ''BUY'' \<or> order_type = ''SELL''" and
      "order_type = ''BUY'' \<longrightarrow> quote_price q * quantity \<le> cash_balance s" and
      "update_holding e symbol (if order_type = ''BUY'' then quantity else - quantity)
         (quote_price q) s = Inr s1" and
      "s' = log_transaction e symbol order_type quantity (quote_price q)
              (update_cash_balance
                 (if order_type = ''BUY'' then - (quote_price q * quantity)
                  else quote_price q * quantity) s1)" and
      "m = ''Successfully '' @ (if order_type = ''BUY'' then ''BOUGHT '' else ''SOLD '')
             @ str_of e quantity @ '' of '' @ symbol @ '' at $'' @ money e (quote_price q) @ ''.''"
      by (rule place_order_succeeded)
    then obtain v where
      m: "m = ''Successfully '' @ v @ str_of e quantity @ '' of '' @ symbol @ '' at $''
                @ money e (quote_price q) @ ''.''"
      by blast
    from q have p: "exec_price e symbol = quote_price q" by (simp add: exec_price_def)
    from m have "m = (''Successfully '' @ v @ str_of e quantity @ '' of '') @ symbol
                       @ ('' at $'' @ money e (quote_price q) @ ''.'')"
      by (simp only: append_assoc)
    then have 1: "sublist symbol m" by (rule sublist_between)
    from m have "m = (''Successfully '' @ v) @ str_of e quantity
                       @ ('' of '' @ symbol @ '' at $'' @ money e (quote_price q) @ ''.'')"
      by (simp only: append_assoc)
    then have 2: "sublist (str_of e quantity) m" by (rule sublist_between)
    from m have "m = (''Successfully '' @ v @ str_of e quantity @ '' of '' @ symbol @ '' at $'')
                       @ money e (quote_price q) @ ''.''"
      by (simp only: append_assoc)
    then have 3: "sublist (money e (exec_price e symbol)) m"
      unfolding p by (rule sublist_between)
    from 1 2 3 show "sublist symbol m \<and> sublist (str_of e quantity) m \<and>
        sublist (money e (exec_price e symbol)) m"
      by simp
  qed
  have invalid_type:
    "order_type \<noteq> ''BUY'' \<and> order_type \<noteq> ''SELL'' \<longrightarrow> m = ''Invalid order type.''"
    using r by (auto simp: place_order_def)
  have invalid_quantity:
    "(order_type = ''BUY'' \<or> order_type = ''SELL'') \<and> quantity \<le> 0 \<longrightarrow>
        m = ''Quantity must be positive.''"
    using r by (auto simp: place_order_def)
  have no_quote:
    "(order_type = ''BUY'' \<or> order_type = ''SELL'') \<and> 0 < quantity \<and>
      get_live_quote e symbol = None \<longrightarrow> \<not> ok \<and> sublist symbol m"
  proof
    assume a: "(order_type = ''BUY'' \<or> order_type = ''SELL'') \<and> 0 < quantity \<and>
      get_live_quote e symbol = None"
    with r have "\<not> ok" and
      "m = ''Could not get live price for '' @ symbol @ ''. Check symbol or API key.''"
      by (auto simp: place_order_def)
    then show "\<not> ok \<and> sublist symbol m" by (blast intro: sublist_between)
  qed
  have funds:
    "order_type = ''BUY'' \<and> 0 < quantity \<and> get_live_quote e symbol \<noteq> None \<and>
      cash_balance s < exec_price e symbol * quantity \<longrightarrow>
        m = ''Insufficient cash. Need $'' @ money e (exec_price e symbol * quantity)
              @ '', have $'' @ money e (cash_balance s) @ ''.''"
    using r by (auto simp: place_order_def exec_price_def get_cash_balance_def Let_def)
  have not_owned:
    "order_type = ''SELL'' \<and> 0 < quantity \<and> get_live_quote e symbol \<noteq> None \<and>
      holdings s symbol = None \<longrightarrow> \<not> ok \<and> sublist symbol m"
  proof
    assume a: "order_type = ''SELL'' \<and> 0 < quantity \<and> get_live_quote e symbol \<noteq> None \<and>
      holdings s symbol = None"
    with r have "\<not> ok" and "m = ''Cannot sell '' @ symbol @ ''. You do not own this stock.''"
      by (auto simp: place_order_def update_holding_def Let_def)
    then show "\<not> ok \<and> sublist symbol m" by (blast intro: sublist_between)
  qed
  have too_many:
    "order_type = ''SELL'' \<and> 0 < quantity \<and> get_live_quote e symbol \<noteq> None \<and>
      holdings s symbol = Some h \<and> held_quantity h < quantity \<longrightarrow>
        m = ''Insufficient quantity to sell. You only have '' @ str_of e (held_quantity h) @ ''.''"
    using r by (auto simp: place_order_def update_holding_def Let_def)
  from success invalid_type invalid_quantity no_quote funds not_owned too_many
  show ?thesis by blast
qed

theorem place_order_messages_witness:
  "place_order (quoting 100) ''X'' 10 ''BUY'' initialize_database =
     ((True, ''Successfully BOUGHT # of X at $#.##.''),
      snd (place_order (quoting 100) ''X'' 10 ''BUY'' initialize_database)) \<and>
   sublist ''X'' ''Successfully BOUGHT # of X at $#.##.'' \<and>
   place_order ((quoting 100)\<lparr>get_live_quote := \<lambda>symbol. None\<rparr>) ''X'' 10 ''BUY''
       initialize_database =
     ((False, ''Could not get live price for X. Check symbol or API key.''),
      initialize_database) \<and>
   sublist ''X'' ''Could not get live price for X. Check symbol or API key.'' \<and>
   place_order (quoting 100) ''X'' 10 ''SELL'' initialize_database =
     ((False, ''Cannot sell X. You do not own this stock.''), initialize_database) \<and>
   sublist ''X'' ''Cannot sell X. You do not own this stock.'' \<and>
   snd (fst (place_order (quoting 100) ''X'' 10 ''HOLD'' initialize_database)) =
     ''Invalid order type.'' \<and>
   snd (fst (place_order (quoting 100) ''X'' 0 ''SELL'' initialize_database)) =
     ''Quantity must be positive.'' \<and>
   snd (fst (place_order (quoting 100) ''X'' 1001 ''BUY'' initialize_database)) =
     ''Insufficient cash. Need $#.##, have $#.##.'' \<and>
   snd (fst (place_order (quoting 300) ''X'' 11 ''SELL''
       (snd (place_order (quoting 100) ''X'' 10 ''BUY'' initialize_database)))) =
     ''Insufficient quantity to sell. You only have #.''"
proof -
  let ?s = initialize_database
  let ?t = "snd (place_order (quoting 100) ''X'' 10 ''BUY'' initialize_database)"
  let ?off = "(quoting 100)\<lparr>get_live_quote := \<lambda>symbol. None\<rparr>"
  have quotes: "get_live_quote (quoting 100) ''X'' \<noteq> None"
    "get_live_quote (quoting 300) ''X'' \<noteq> None" "get_live_quote ?off ''X'' = None"
    "exec_price (quoting 100) ''X'' = 100"
    by (simp_all add: quoting_def exec_price_def)
  have rows: "holdings ?s ''X'' = None" "cash_balance ?s = 100000"
    "holdings ?t ''X'' = Some \<lparr>held_quantity = 10, average_price = 100\<rparr>"
    by (simp_all add: demo_buy) (simp_all add: initialize_database_def INITIAL_CASH_def)
  have renders: "money (quoting 100) = (\<lambda>x. ''#.##'')" "str_of (quoting 300) = (\<lambda>x. ''#'')"
    by (simp_all add: quoting_def)
  have bought: "place_order (quoting 100) ''X'' 10 ''BUY'' ?s =
      ((True, ''Successfully BOUGHT # of X at $#.##.''), ?t)"
    by (simp add: demo_buy)
  have no_quote: "place_order ?off ''X'' 10 ''BUY'' ?s =
      ((False, ''Could not get live price for X. Check symbol or API key.''), ?s)"
    by (simp add: place_order_def quoting_def)
  have not_owned: "place_order (quoting 100) ''X'' 10 ''SELL'' ?s =
      ((False, ''Cannot sell X. You do not own this stock.''), ?s)"
    by (simp add: place_order_def update_holding_def quoting_def initialize_database_def)
  have 1: "sublist ''X'' ''Successfully BOUGHT # of X at $#.##.''"
    using place_order_messages [OF bought] by simp
  have 2: "sublist ''X'' ''Could not get live price for X. Check symbol or API key.''"
    using place_order_messages [OF no_quote] quotes by simp
  have 3: "sublist ''X'' ''Cannot sell X. You do not own this stock.''"
    using place_order_messages [OF not_owned] quotes rows by simp
  have invalid_type: "place_order (quoting 100) ''X'' 10 ''HOLD'' ?s =
      ((False, snd (fst (place_order (quoting 100) ''X'' 10 ''HOLD'' ?s))), ?s)"
    by (simp add: place_order_def)
  have invalid_quantity: "place_order (quoting 100) ''X'' 0 ''SELL'' ?s =
      ((False, snd (fst (place_order (quoting 100) ''X'' 0 ''SELL'' ?s))), ?s)"
    by (simp add: place_order_def)
  have funds: "place_order (quoting 100) ''X'' 1001 ''BUY'' ?s =
      ((False, snd (fst (place_order (quoting 100) ''X'' 1001 ''BUY'' ?s))), ?s)"
    by (simp add: place_order_def get_cash_balance_def quoting_def initialize_database_def
          INITIAL_CASH_def)
  have too_many: "place_order (quoting 300) ''X'' 11 ''SELL'' ?t =
      ((False, snd (fst (place_order (quoting 300) ''X'' 11 ''SELL'' ?t))), ?t)"
    by (simp add: demo_buy) (simp add: place_order_def update_holding_def quoting_def)
  have 4: "snd (fst (place_order (quoting 100) ''X'' 10 ''HOLD'' ?s)) = ''Invalid order type.''"
    using place_order_messages [OF invalid_type] by simp
  have 5: "snd (fst (place_order (quoting 100) ''X'' 0 ''SELL'' ?s)) =
      ''Quantity must be positive.''"
    using place_order_messages [OF invalid_quantity] by simp
  have 6: "snd (fst (place_order (quoting 100) ''X'' 1001 ''BUY'' ?s)) =
      ''Insufficient cash. Need $#.##, have $#.##.''"
    using place_order_messages [OF funds] quotes rows renders by simp
  have 7: "snd (fst (place_order (quoting 300) ''X'' 11 ''SELL'' ?t)) =
      ''Insufficient quantity to sell. You only have #.''"
    using place_order_messages [OF too_many,
        of "\<lparr>held_quantity = 10, average_price = 100\<rparr>"] quotes rows renders
    by simp
  from bought no_quote not_owned 1 2 3 4 5 6 7 show ?thesis by simp
qed

section \<open>Deposits\<close>

text \<open>
  C10. For every amount \<open>\<le> 0\<close>, \<^verbatim>\<open>add_virtual_cash\<close> returns a failure and changes neither
  the cash balance nor the transaction log (indeed nothing); for every amount \<open>> 0\<close> it
  succeeds, raises the cash balance by exactly the amount and appends exactly one
  transaction, with symbol \<^verbatim>\<open>CASH\<close>, type \<^verbatim>\<open>DEPOSIT\<close>, quantity 1 and the amount as price.
\<close>

theorem add_virtual_cash_effect:
  "(amount \<le> 0 \<longrightarrow>
      add_virtual_cash e amount s = ((False, ''Amount must be positive.''), s)) \<and>
   (amount > 0 \<longrightarrow>
      fst (fst (add_virtual_cash e amount s)) = True \<and>
      cash_balance (snd (add_virtual_cash e amount s)) = cash_balance s + amount \<and>
      holdings (snd (add_virtual_cash e amount s)) = holdings s \<and>
      transactions (snd (add_virtual_cash e amount s)) = transactions s @
        [\<lparr>txn_symbol = ''CASH'', txn_type = ''DEPOSIT'', txn_quantity = 1,
          txn_price = amount, txn_timestamp = now e\<rparr>])"
  by (simp add: add_virtual_cash_def update_cash_balance_def log_transaction_def Let_def)

theorem add_virtual_cash_effect_witness:
  "add_virtual_cash (quoting 1) (- 5) initialize_database =
     ((False, ''Amount must be positive.''), initialize_database) \<and>
   fst (fst (add_virtual_cash (quoting 1) 500 initialize_database)) = True \<and>
   cash_balance (snd (add_virtual_cash (quoting 1) 500 initialize_database)) = 100500 \<and>
   transactions (snd (add_virtual_cash (quoting 1) 500 initialize_database)) =
     [\<lparr>txn_symbol = ''CASH'', txn_type = ''DEPOSIT'', txn_quantity = 1,
       txn_price = 500, txn_timestamp = ''2024-01-01T09:15:00''\<rparr>]"
  using add_virtual_cash_effect [of "- 5" "quoting 1" initialize_database]
        add_virtual_cash_effect [of 500 "quoting 1" initialize_database]
  by (simp add: initialize_database_def INITIAL_CASH_def quoting_def)

end
